theory Spec2Isabelle
  imports Main
begin

section \<open>Python strings\<close>

text \<open>
  A Python \<open>str\<close> is a sequence of Unicode code points. A code point is a natural
  number here, so that the whitespace \<open>str.strip\<close> removes can be written out in
  full; a literal of the script is the code points of its ASCII characters.
\<close>

type_synonym pystr = "nat list"

definition py :: "string \<Rightarrow> pystr" where
  "py s = map of_char s"

text \<open>
  \<open>str.isspace\<close> on one code point, as CPython decides it: U+0009 to U+000D,
  U+001C to U+0020, U+0085, U+00A0, U+1680, U+2000 to U+200A, U+2028, U+2029, U+202F,
  U+205F and U+3000.
\<close>

definition isspace :: "nat \<Rightarrow> bool" where
  "isspace c =
     ((9 \<le> c \<and> c \<le> 13) \<or> (28 \<le> c \<and> c \<le> 32) \<or> c = 133 \<or> c = 160 \<or> c = 5760 \<or>
      (8192 \<le> c \<and> c \<le> 8202) \<or> c = 8232 \<or> c = 8233 \<or> c = 8239 \<or> c = 8287 \<or>
      c = 12288)"

text \<open>\<open>s.lstrip()\<close>, \<open>s.rstrip()\<close> and \<open>s.strip()\<close> with no argument.\<close>

definition lstrip :: "pystr \<Rightarrow> pystr" where
  "lstrip s = dropWhile isspace s"

definition rstrip :: "pystr \<Rightarrow> pystr" where
  "rstrip s = rev (dropWhile isspace (rev s))"

definition strip :: "pystr \<Rightarrow> pystr" where
  "strip s = rstrip (lstrip s)"

text \<open>\<open>s.startswith(p)\<close> and \<open>s.endswith(p)\<close>.\<close>

definition startswith :: "pystr \<Rightarrow> pystr \<Rightarrow> bool" where
  "startswith s p = (take (length p) s = p)"

definition endswith :: "pystr \<Rightarrow> pystr \<Rightarrow> bool" where
  "endswith s p = (length p \<le> length s \<and> drop (length s - length p) s = p)"

section \<open>Files\<close>

text \<open>
  The exceptions the script can meet. \<open>IOError\<close> is Python 3's alias of \<open>OSError\<close>;
  \<open>FileNotFoundError\<close>, \<open>PermissionError\<close> and \<open>IsADirectoryError\<close> are
  subclasses of it, \<open>UnicodeDecodeError\<close> (a \<open>ValueError\<close>) is not.
\<close>

datatype exn =
    FileNotFoundError
  | PermissionError
  | IsADirectoryError
  | OSError
  | UnicodeDecodeError

fun is_IOError :: "exn \<Rightarrow> bool" where
  "is_IOError UnicodeDecodeError = False"
| "is_IOError _ = True"

fun is_FileNotFoundError :: "exn \<Rightarrow> bool" where
  "is_FileNotFoundError FileNotFoundError = True"
| "is_FileNotFoundError _ = False"

text \<open>
  What a regular file gives a reader in text mode with \<open>encoding='utf-8'\<close>: either its
  whole decoded text, or the text delivered before a read fails (an I/O error, or bytes
  that are not UTF-8) and the exception of that failure.
\<close>

datatype content =
    Text pystr
  | Faulty pystr exn

text \<open>A path of the file system names nothing, a directory, or a regular file, which
  the process may or may not read.\<close>

datatype node =
    Directory
  | Regular bool content

type_synonym filesystem = "pystr \<rightharpoonup> node"

text \<open>\<open>io.open(path, encoding='utf-8')\<close>: the open stream, or the exception raised.\<close>

definition io_open :: "filesystem \<Rightarrow> pystr \<Rightarrow> exn + content" where
  "io_open files path =
     (case files path of
        None \<Rightarrow> Inl FileNotFoundError
      | Some Directory \<Rightarrow> Inl IsADirectoryError
      | Some (Regular readable c) \<Rightarrow> if readable then Inr c else Inl PermissionError)"

text \<open>
  The stream is opened with the default \<open>newline=None\<close>: on input \<open>'\r\n'\<close> and a
  lone \<open>'\r'\<close> are translated to \<open>'\n'\<close>.
\<close>

fun universal_newlines :: "pystr \<Rightarrow> pystr" where
  "universal_newlines [] = []"
| "universal_newlines [c] = (if c = 13 then [10] else [c])"
| "universal_newlines (c # d # cs) =
     (if c = 13 \<and> d = 10 then 10 # universal_newlines cs
      else if c = 13 then 10 # universal_newlines (d # cs)
      else c # universal_newlines (d # cs))"

text \<open>Iterating over the stream yields its lines, each with its \<open>'\n'\<close>; only the
  last line can lack one.\<close>

fun split_lines :: "pystr \<Rightarrow> pystr list" where
  "split_lines [] = []"
| "split_lines (c # cs) =
     (if c = 10 then [c] # split_lines cs
      else (case split_lines cs of
              [] \<Rightarrow> [[c]]
            | l # ls \<Rightarrow> (c # l) # ls))"

definition file_lines :: "pystr \<Rightarrow> pystr list" where
  "file_lines t = split_lines (universal_newlines t)"

text \<open>\<open>for line in f\<close>: the lines the loop sees, and the exception that ends the
  iteration when the read fails.\<close>

fun iter_lines :: "content \<Rightarrow> pystr list \<times> exn option" where
  "iter_lines (Text t) = (file_lines t, None)"
| "iter_lines (Faulty t e) = (file_lines t, Some e)"

text \<open>\<open>f.read()\<close>: the whole text, newlines translated.\<close>

fun read_all :: "content \<Rightarrow> exn + pystr" where
  "read_all (Text t) = Inr (universal_newlines t)"
| "read_all (Faulty t e) = Inl e"

text \<open>\<open>os.path.join(a, b)\<close> of \<open>posixpath\<close>.\<close>

definition path_join :: "pystr \<Rightarrow> pystr \<Rightarrow> pystr" where
  "path_join a b =
     (if startswith b (py ''/'') then b
      else if a = [] \<or> endswith a (py ''/'') then a @ b
      else a @ py ''/'' @ b)"

text \<open>
  What the script sees of the world when it runs: \<open>here\<close> is
  \<open>os.path.abspath(os.path.dirname(__file__))\<close>, the absolute directory of the script;
  \<open>cwd\<close> is the current working directory of the process, absolute as well;
  \<open>found_packages\<close> is what \<open>find_packages(exclude=['tests'])\<close> returns.
\<close>

record env =
  here :: pystr
  cwd :: pystr
  files :: filesystem
  found_packages :: "pystr list"

text \<open>\<open>os.path.exists(path)\<close>: a relative path is resolved against the current
  working directory.\<close>

definition path_exists :: "env \<Rightarrow> pystr \<Rightarrow> bool" where
  "path_exists e path = (files e (path_join (cwd e) path) \<noteq> None)"

section \<open>The setup script\<close>

subsection \<open>\<open>read\<close>\<close>

definition read :: "env \<Rightarrow> pystr \<Rightarrow> exn + pystr" where
  "read e filename =
     (case io_open (files e) (path_join (here e) filename) of
        Inl x \<Rightarrow> Inl x
      | Inr f \<Rightarrow> read_all f)"

subsection \<open>\<open>get_requirements\<close>\<close>

text \<open>The body of the \<open>for\<close> loop, run over the lines the stream yields; \<open>fault\<close> is
  the exception that ends the iteration, if one does.\<close>

fun parse_lines :: "pystr list \<Rightarrow> exn option \<Rightarrow> pystr list \<Rightarrow> exn + pystr list" where
  "parse_lines [] None requirements = Inr requirements"
| "parse_lines [] (Some x) requirements = Inl x"
| "parse_lines (l # ls) fault requirements =
     (let line = strip l in
      if line \<noteq> [] \<and> \<not> startswith line (py ''#'')
      then parse_lines ls fault (requirements @ [line])
      else parse_lines ls fault requirements)"

definition fallback_requirements :: "pystr list" where
  "fallback_requirements =
     [py ''flask>=2.3.0'',
      py ''sqlalchemy>=2.0.0'',
      py ''marshmallow>=3.20.0'',
      py ''celery>=5.3.0'',
      py ''pyjwt>=2.8.0'',
      py ''pymongo>=6.0.0'',
      py ''redis>=7.0.0'',
      py ''boto3>=1.28.0'',
      py ''requests>=2.31.0'',
      py ''python-dotenv>=1.0.0'',
      py ''gunicorn>=21.2.0'',
      py ''pydantic>=2.4.0'',
      py ''cryptography>=41.0.0'',
      py ''jinja2>=3.1.0'']"

text \<open>The \<open>try\<close> block: open, loop, return.\<close>

definition try_requirements :: "env \<Rightarrow> exn + pystr list" where
  "try_requirements e =
     (case io_open (files e) (path_join (here e) (py ''requirements.txt'')) of
        Inl x \<Rightarrow> Inl x
      | Inr f \<Rightarrow> (case iter_lines f of (ls, fault) \<Rightarrow> parse_lines ls fault []))"

text \<open>\<open>except (IOError, FileNotFoundError)\<close> returns the predefined list; any other
  exception leaves the function.\<close>

definition get_requirements :: "env \<Rightarrow> exn + pystr list" where
  "get_requirements e =
     (case try_requirements e of
        Inr requirements \<Rightarrow> Inr requirements
      | Inl x \<Rightarrow>
          if is_IOError x \<or> is_FileNotFoundError x then Inr fallback_requirements
          else Inl x)"

subsection \<open>The top level\<close>

text \<open>\<open>README = read('README.md') if os.path.exists('README.md') else ''\<close>\<close>

definition README :: "env \<Rightarrow> exn + pystr" where
  "README e =
     (if path_exists e (py ''README.md'') then read e (py ''README.md'') else Inr (py ''''))"

definition REQUIREMENTS :: "env \<Rightarrow> exn + pystr list" where
  "REQUIREMENTS e = get_requirements e"

text \<open>The keyword arguments of the call of \<open>setup\<close>; a dictionary is the list of its
  items.\<close>

record setup_kwargs =
  name :: pystr
  version :: pystr
  description :: pystr
  long_description :: pystr
  packages :: "pystr list"
  python_requires :: pystr
  install_requires :: "pystr list"
  extras_require :: "(pystr \<times> pystr list) list"
  entry_points :: "(pystr \<times> pystr list) list"
  classifiers :: "pystr list"

text \<open>Running the script: the two assignments in order, then the call. An exception of
  an assignment ends the script before \<open>setup\<close> is called.\<close>

definition setup_script :: "env \<Rightarrow> exn + setup_kwargs" where
  "setup_script e =
     (case README e of
        Inl x \<Rightarrow> Inl x
      | Inr readme \<Rightarrow>
          (case REQUIREMENTS e of
             Inl x \<Rightarrow> Inl x
           | Inr requirements \<Rightarrow>
               Inr \<lparr>name = py ''brik-refunds-service'',
                    version = py ''0.1.0'',
                    description = py ''Comprehensive refund processing and management service for the Brik platform'',
                    long_description = readme,
                    packages = found_packages e,
                    python_requires = py ''>=3.11'',
                    install_requires = requirements,
                    extras_require =
                      [(py ''dev'',
                        [py ''pytest>=7.4.0'',
                         py ''pytest-cov>=4.1.0'',
                         py ''pytest-mock>=3.11.0'',
                         py ''black>=23.7.0'',
                         py ''flake8>=6.1.0'',
                         py ''isort>=5.12.0'',
                         py ''mypy>=1.5.0''])],
                    entry_points =
                      [(py ''console_scripts'',
                        [py ''refunds-api=backend.api.server:main'',
                         py ''refunds-worker=backend.workers.processor:main''])],
                    classifiers =
                      [py ''Development Status :: 4 - Beta'',
                       py ''Intended Audience :: Financial and Insurance Industry'',
                       py ''Programming Language :: Python :: 3.11'',
                       py ''Topic :: Office/Business :: Financial'']\<rparr>))"

section \<open>The specification's notions\<close>

text \<open>
  A line of a requirements file is blank when it holds whitespace only, and a comment
  when its first character that is not whitespace is \<open>'#'\<close>. The dependency list the
  specification describes keeps the other lines, in file order, each stripped.
\<close>

definition blank_line :: "pystr \<Rightarrow> bool" where
  "blank_line l = list_all isspace l"

definition comment_line :: "pystr \<Rightarrow> bool" where
  "comment_line l = (case dropWhile isspace l of [] \<Rightarrow> False | c # _ \<Rightarrow> c = 35)"

definition spec_requirements :: "pystr \<Rightarrow> pystr list" where
  "spec_requirements t =
     map strip (filter (\<lambda>l. \<not> blank_line l \<and> \<not> comment_line l) (file_lines t))"


text \<open>A string is tidy when it is not empty, neither starts nor ends with whitespace,
  and does not start with \<open>'#'\<close>.\<close>

definition tidy :: "pystr \<Rightarrow> bool" where
  "tidy r = (case r of [] \<Rightarrow> False | c # _ \<Rightarrow> \<not> isspace c \<and> \<not> isspace (last r) \<and> c \<noteq> 35)"

section \<open>Example runs\<close>

text \<open>The script in \<open>/proj\<close>, run from the directory \<open>wd\<close>, over the files \<open>fs\<close>.\<close>

definition run_in :: "string \<Rightarrow> (string \<times> node) list \<Rightarrow> env" where
  "run_in wd fs =
     \<lparr>here = py ''/proj'', cwd = py wd,
      files = map_of (map (\<lambda>(p, n). (py p, n)) fs),
      found_packages = [py ''backend'']\<rparr>"

definition plain :: "string \<Rightarrow> node" where
  "plain s = Regular True (Text (py s))"

definition sample_requirements :: string where
  "sample_requirements =
     ''# runtime\<newline>\<newline>   \<newline>flask>=2.3.0  # web\<newline>  requests==2.31.0\<newline>  # pinned\<newline>celery''"

section \<open>Properties\<close>

subsection \<open>Strings\<close>

lemma py_hash: "py ''#'' = [35]"
  by (simp add: py_def)

lemma startswith_hash: "startswith s (py ''#'') = (case s of [] \<Rightarrow> False | c # _ \<Rightarrow> c = 35)"
  by (cases s) (simp_all add: startswith_def py_hash)

lemma not_isspace_hash: "\<not> isspace 35"
  by (simp add: isspace_def)

lemma dropWhile_keeps: "xs \<noteq> [] \<Longrightarrow> \<not> P (hd xs) \<Longrightarrow> dropWhile P xs = xs"
  by (cases xs) simp_all

lemma rstrip_Cons: "\<not> isspace c \<Longrightarrow> rstrip (c # cs) = c # rstrip cs"
  by (simp add: rstrip_def dropWhile_append)

lemma lstrip_cases:
  obtains "lstrip l = []" "list_all isspace l"
  | c cs where "lstrip l = c # cs" "\<not> isspace c" "\<not> list_all isspace l"
proof (cases "dropWhile isspace l")
  case Nil
  then have "list_all isspace l" by (simp add: list_all_iff)
  with Nil that(1) show ?thesis by (simp add: lstrip_def)
next
  case (Cons c cs)
  then have "\<not> isspace c" using hd_dropWhile[of isspace l] by auto
  moreover have "\<not> list_all isspace l"
    using Cons by (auto simp: list_all_iff dropWhile_eq_Nil_conv[symmetric] simp del: dropWhile_eq_Nil_conv)
  ultimately show ?thesis using Cons that(2) by (simp add: lstrip_def)
qed

lemma strip_Nil_iff: "strip l = [] \<longleftrightarrow> blank_line l"
proof (cases l rule: lstrip_cases)
  case 1
  then show ?thesis by (simp add: strip_def rstrip_def blank_line_def)
next
  case (2 c cs)
  then show ?thesis by (simp add: strip_def rstrip_Cons blank_line_def)
qed

lemma strip_hash_iff: "startswith (strip l) (py ''#'') \<longleftrightarrow> comment_line l"
proof (cases l rule: lstrip_cases)
  case 1
  then show ?thesis
    by (simp add: strip_def rstrip_def startswith_hash comment_line_def lstrip_def[symmetric])
next
  case (2 c cs)
  then show ?thesis
    by (simp add: strip_def rstrip_Cons startswith_hash comment_line_def lstrip_def[symmetric])
qed


lemma last_rstrip: "rstrip s \<noteq> [] \<Longrightarrow> \<not> isspace (last (rstrip s))"
proof -
  assume a: "rstrip s \<noteq> []"
  then have "dropWhile isspace (rev s) \<noteq> []" by (simp add: rstrip_def)
  then have "\<not> isspace (hd (dropWhile isspace (rev s)))" by (rule hd_dropWhile)
  moreover have "last (rstrip s) = hd (dropWhile isspace (rev s))"
    by (simp add: rstrip_def last_rev)
  ultimately show ?thesis by simp
qed

lemma tidy_strip:
  assumes "strip l \<noteq> []" and "\<not> startswith (strip l) (py ''#'')"
  shows "tidy (strip l)"
proof (cases l rule: lstrip_cases)
  case 1
  with assms(1) show ?thesis by (simp add: strip_def rstrip_def)
next
  case (2 c cs)
  then have s: "strip l = c # rstrip cs" by (simp add: strip_def rstrip_Cons)
  have "\<not> isspace (last (strip l))"
    using assms(1) last_rstrip[of "lstrip l"] by (simp add: strip_def)
  moreover have "c \<noteq> 35" using assms(2) s by (simp add: startswith_hash)
  ultimately show ?thesis using s 2(2) by (simp add: tidy_def)
qed

lemma tidy_props:
  assumes "tidy r"
  shows "r \<noteq> []" and "\<not> isspace (hd r)" and "\<not> isspace (last r)"
    and "\<not> startswith r (py ''#'')" and "strip r = r"
proof -
  from assms obtain c cs where r: "r = c # cs" and c: "\<not> isspace c"
    and l: "\<not> isspace (last r)" and h: "c \<noteq> 35"
    by (auto simp: tidy_def split: list.splits)
  show "r \<noteq> []" "\<not> isspace (hd r)" "\<not> isspace (last r)" "\<not> startswith r (py ''#'')"
    using r c l h by (simp_all add: startswith_hash)
  have "lstrip r = r" using r c by (simp add: lstrip_def)
  moreover have "rstrip r = r"
  proof -
    have n: "rev r \<noteq> []" using r by simp
    have "hd (rev r) = last r" using r by (simp add: hd_rev)
    with l have "\<not> isspace (hd (rev r))" by simp
    with n have "dropWhile isspace (rev r) = rev r" by (rule dropWhile_keeps)
    then show ?thesis by (simp add: rstrip_def)
  qed
  ultimately show "strip r = r" by (simp add: strip_def)
qed

subsection \<open>The loop of \<open>get_requirements\<close>\<close>

lemma parse_lines_None:
  "parse_lines ls None acc =
     Inr (acc @ filter (\<lambda>s. s \<noteq> [] \<and> \<not> startswith s (py ''#'')) (map strip ls))"
  by (induction ls arbitrary: acc) (simp_all add: Let_def)

lemma parse_lines_Some: "parse_lines ls (Some x) acc = Inl x"
  by (induction ls arbitrary: acc) (simp_all add: Let_def)

lemma filter_strip_spec:
  "filter (\<lambda>s. s \<noteq> [] \<and> \<not> startswith s (py ''#'')) (map strip ls) =
   map strip (filter (\<lambda>l. \<not> blank_line l \<and> \<not> comment_line l) ls)"
  by (induction ls) (simp_all add: strip_Nil_iff strip_hash_iff)


lemma io_open_Inl: "io_open fs p = Inl x \<Longrightarrow> is_IOError x"
  by (auto simp: io_open_def split: option.splits node.splits if_splits)

lemma try_requirements_Text:
  "files e (path_join (here e) (py ''requirements.txt'')) = Some (Regular True (Text t)) \<Longrightarrow>
   try_requirements e =
     Inr (filter (\<lambda>s. s \<noteq> [] \<and> \<not> startswith s (py ''#'')) (map strip (file_lines t)))"
  by (simp add: try_requirements_def io_open_def parse_lines_None)

lemma get_requirements_read_fault:
  assumes "files e (path_join (here e) (py ''requirements.txt'')) = Some (Regular True (Faulty t x))"
  shows "get_requirements e =
           (if is_IOError x \<or> is_FileNotFoundError x then Inr fallback_requirements else Inl x)"
  using assms
  by (simp add: get_requirements_def try_requirements_def io_open_def parse_lines_Some)

lemma try_requirements_Inr:
  assumes "try_requirements e = Inr rs"
  shows "\<exists>ls. rs = filter (\<lambda>s. s \<noteq> [] \<and> \<not> startswith s (py ''#'')) (map strip ls)"
proof (cases "io_open (files e) (path_join (here e) (py ''requirements.txt''))")
  case (Inl x)
  with assms show ?thesis by (simp add: try_requirements_def)
next
  case (Inr f)
  show ?thesis
  proof (cases f)
    case (Text t)
    with Inr assms show ?thesis
      by (auto simp: try_requirements_def parse_lines_None)
  next
    case (Faulty t x)
    with Inr assms show ?thesis
      by (simp add: try_requirements_def parse_lines_Some)
  qed
qed

lemma get_requirements_Inr:
  assumes "get_requirements e = Inr rs"
  shows "rs = fallback_requirements \<or>
         (\<exists>ls. rs = filter (\<lambda>s. s \<noteq> [] \<and> \<not> startswith s (py ''#'')) (map strip ls))"
proof (cases "try_requirements e")
  case (Inl x)
  with assms show ?thesis by (simp add: get_requirements_def split: if_splits)
next
  case (Inr rs')
  with assms have "rs' = rs" by (simp add: get_requirements_def)
  with Inr show ?thesis using try_requirements_Inr by blast
qed

lemma fallback_literal:
  "fallback_requirements =
     [py ''flask>=2.3.0'', py ''sqlalchemy>=2.0.0'', py ''marshmallow>=3.20.0'',
      py ''celery>=5.3.0'', py ''pyjwt>=2.8.0'', py ''pymongo>=6.0.0'', py ''redis>=7.0.0'',
      py ''boto3>=1.28.0'', py ''requests>=2.31.0'', py ''python-dotenv>=1.0.0'',
      py ''gunicorn>=21.2.0'', py ''pydantic>=2.4.0'', py ''cryptography>=41.0.0'',
      py ''jinja2>=3.1.0'']"
  by (simp add: fallback_requirements_def)

lemma length_fallback: "length fallback_requirements = 14"
  by (simp add: fallback_requirements_def)

lemma distinct_fallback: "distinct fallback_requirements"
  by (simp add: fallback_requirements_def py_def)

lemma tidy_fallback: "list_all tidy fallback_requirements"
  by (simp add: fallback_requirements_def py_def tidy_def isspace_def)

subsection \<open>Evaluating the example runs\<close>

lemmas run_simps =
  run_in_def plain_def py_def path_join_def startswith_def endswith_def io_open_def

lemma README_beside_script:
  assumes "cwd e = here e"
  shows "files e (path_join (here e) (py ''README.md'')) = Some (Regular True (Text t)) \<Longrightarrow>
           README e = Inr (universal_newlines t)"
    and "files e (path_join (here e) (py ''README.md'')) = None \<Longrightarrow> README e = Inr (py '''')"
  using assms by (simp_all add: README_def path_exists_def read_def io_open_def)

subsection \<open>The claims\<close>

text \<open>
  C1, amended. For a \<open>requirements.txt\<close> that opens and whose whole text is read and
  decoded as UTF-8 without an error, \<open>get_requirements\<close> returns exactly the lines of
  the file that are not blank and not comments, in file order, each stripped of its
  leading and trailing whitespace.
\<close>

theorem get_requirements_readable:
  "files e (path_join (here e) (py ''requirements.txt'')) = Some (Regular True (Text t)) \<Longrightarrow>
   get_requirements e = Inr (spec_requirements t)"
  by (simp add: get_requirements_def try_requirements_Text filter_strip_spec
      spec_requirements_def)

theorem get_requirements_readable_witness:
  "files (run_in ''/proj'' [(''/proj/requirements.txt'', plain sample_requirements)])
     (path_join (here (run_in ''/proj'' [(''/proj/requirements.txt'', plain sample_requirements)]))
        (py ''requirements.txt'')) =
     Some (Regular True (Text (py sample_requirements))) \<and>
   get_requirements (run_in ''/proj'' [(''/proj/requirements.txt'', plain sample_requirements)]) =
     Inr [py ''flask>=2.3.0  # web'', py ''requests==2.31.0'', py ''celery'']"
proof -
  let ?E = "run_in ''/proj'' [(''/proj/requirements.txt'', plain sample_requirements)]"
  have h: "files ?E (path_join (here ?E) (py ''requirements.txt'')) =
             Some (Regular True (Text (py sample_requirements)))"
    by (simp add: run_simps)
  have s: "spec_requirements (py sample_requirements) =
             [py ''flask>=2.3.0  # web'', py ''requests==2.31.0'', py ''celery'']"
    by (simp add: spec_requirements_def blank_line_def comment_line_def file_lines_def
        sample_requirements_def py_def strip_def lstrip_def rstrip_def isspace_def)
  from get_requirements_readable [OF h] s h show ?thesis by simp
qed

text \<open>
  C1 as stated, for every file that opens, fails on a file whose read fails after the
  open. When the bytes after the first line are not UTF-8 the iteration raises
  \<open>UnicodeDecodeError\<close>, which the \<open>except\<close> clause does not catch, and no list is
  returned. When the read raises an \<open>OSError\<close> the clause catches it and the
  predefined list is returned, not the line \<open>flask\<close> already read.
\<close>

theorem get_requirements_readable_counterexample:
  "io_open
     (files (run_in ''/proj''
        [(''/proj/requirements.txt'', Regular True (Faulty (py ''flask\<newline>'') UnicodeDecodeError))]))
     (path_join
        (here (run_in ''/proj''
           [(''/proj/requirements.txt'', Regular True (Faulty (py ''flask\<newline>'') UnicodeDecodeError))]))
        (py ''requirements.txt'')) =
     Inr (Faulty (py ''flask\<newline>'') UnicodeDecodeError) \<and>
   get_requirements
     (run_in ''/proj''
        [(''/proj/requirements.txt'', Regular True (Faulty (py ''flask\<newline>'') UnicodeDecodeError))]) =
     Inl UnicodeDecodeError \<and>
   io_open
     (files (run_in ''/proj''
        [(''/proj/requirements.txt'', Regular True (Faulty (py ''flask\<newline>'') OSError))]))
     (path_join
        (here (run_in ''/proj''
           [(''/proj/requirements.txt'', Regular True (Faulty (py ''flask\<newline>'') OSError))]))
        (py ''requirements.txt'')) =
     Inr (Faulty (py ''flask\<newline>'') OSError) \<and>
   get_requirements
     (run_in ''/proj''
        [(''/proj/requirements.txt'', Regular True (Faulty (py ''flask\<newline>'') OSError))]) =
     Inr fallback_requirements \<and>
   spec_requirements (py ''flask\<newline>'') = [py ''flask''] \<and>
   fallback_requirements \<noteq> [py ''flask'']"
proof -
  let ?U = "run_in ''/proj''
    [(''/proj/requirements.txt'', Regular True (Faulty (py ''flask\<newline>'') UnicodeDecodeError))]"
  let ?O = "run_in ''/proj''
    [(''/proj/requirements.txt'', Regular True (Faulty (py ''flask\<newline>'') OSError))]"
  have u: "files ?U (path_join (here ?U) (py ''requirements.txt'')) =
             Some (Regular True (Faulty (py ''flask\<newline>'') UnicodeDecodeError))"
    by (simp add: run_in_def py_def path_join_def startswith_def endswith_def)
  have o: "files ?O (path_join (here ?O) (py ''requirements.txt'')) =
             Some (Regular True (Faulty (py ''flask\<newline>'') OSError))"
    by (simp add: run_in_def py_def path_join_def startswith_def endswith_def)
  have s: "spec_requirements (py ''flask\<newline>'') = [py ''flask'']"
    by (simp add: spec_requirements_def blank_line_def comment_line_def file_lines_def
        py_def strip_def lstrip_def rstrip_def isspace_def)
  have f: "fallback_requirements \<noteq> [py ''flask'']"
    by (simp add: fallback_requirements_def)
  show ?thesis
    using get_requirements_read_fault [OF u] get_requirements_read_fault [OF o] u o s f
    by (simp add: io_open_def)
qed

text \<open>
  C2. When opening \<open>requirements.txt\<close> raises (the file is absent, a directory or
  unreadable), the exception is an \<open>IOError\<close>, \<open>get_requirements\<close> does not propagate
  it, and it returns the predefined list of fourteen entries.
\<close>

theorem get_requirements_fallback:
  "io_open (files e) (path_join (here e) (py ''requirements.txt'')) = Inl x \<Longrightarrow>
   (is_IOError x \<or> is_FileNotFoundError x) \<and>
   get_requirements e = Inr fallback_requirements \<and>
   length fallback_requirements = 14"
  by (simp add: get_requirements_def try_requirements_def io_open_Inl length_fallback)

theorem get_requirements_fallback_witness:
  "io_open (files (run_in ''/proj'' [(''/proj/requirements.txt'', Regular False (Text (py ''flask'')))]))
     (path_join (here (run_in ''/proj'' [(''/proj/requirements.txt'', Regular False (Text (py ''flask'')))]))
        (py ''requirements.txt'')) = Inl PermissionError \<and>
   get_requirements (run_in ''/proj'' [(''/proj/requirements.txt'', Regular False (Text (py ''flask'')))]) =
     Inr fallback_requirements"
proof -
  let ?E = "run_in ''/proj'' [(''/proj/requirements.txt'', Regular False (Text (py ''flask'')))]"
  have h: "io_open (files ?E) (path_join (here ?E) (py ''requirements.txt'')) = Inl PermissionError"
    by (simp add: run_simps)
  from get_requirements_fallback [OF h] h show ?thesis by simp
qed

text \<open>
  C4. Whenever the script reaches the call of \<open>setup\<close>, the package name is
  \<open>'brik-refunds-service'\<close>, the version is \<open>'0.1.0'\<close>, and the console scripts are
  \<open>refunds-api\<close>, the function \<open>main\<close> of \<open>backend.api.server\<close>, and \<open>refunds-worker\<close>,
  the function \<open>main\<close> of \<open>backend.workers.processor\<close>, whatever the files, the working
  directory and the packages found.
\<close>

theorem setup_fixed_literals:
  "setup_script e = Inr kw \<Longrightarrow>
   name kw = py ''brik-refunds-service'' \<and>
   version kw = py ''0.1.0'' \<and>
   entry_points kw =
     [(py ''console_scripts'',
       [py ''refunds-api=backend.api.server:main'',
        py ''refunds-worker=backend.workers.processor:main''])]"
  by (auto simp: setup_script_def split: sum.splits)

lemma setup_script_empty_runs: "\<exists>kw. setup_script (run_in ''/proj'' []) = Inr kw"
proof -
  have "README (run_in ''/proj'' []) = Inr (py '''')"
    by (simp add: README_def path_exists_def run_in_def)
  moreover have "REQUIREMENTS (run_in ''/proj'' []) = Inr fallback_requirements"
    by (simp add: REQUIREMENTS_def get_requirements_def try_requirements_def io_open_def run_in_def)
  ultimately show ?thesis by (simp add: setup_script_def)
qed

theorem setup_fixed_literals_witness:
  "\<exists>kw. setup_script (run_in ''/proj'' []) = Inr kw \<and>
     name kw = py ''brik-refunds-service'' \<and>
     version kw = py ''0.1.0'' \<and>
     entry_points kw =
       [(py ''console_scripts'',
         [py ''refunds-api=backend.api.server:main'',
          py ''refunds-worker=backend.workers.processor:main''])]"
proof -
  from setup_script_empty_runs obtain kw where h: "setup_script (run_in ''/proj'' []) = Inr kw" ..
  from setup_fixed_literals [OF h] h show ?thesis by blast
qed

text \<open>
  C5. On the fallback path, that is when the \<open>try\<close> block raised and \<open>get_requirements\<close>
  returned all the same, the list returned is exactly these fourteen requirements, each
  a distribution name (lower case, as the script writes it) with its \<open>>=\<close> floor, and no
  others.
\<close>

theorem fallback_floors:
  "try_requirements e = Inl x \<Longrightarrow> get_requirements e = Inr rs \<Longrightarrow>
   rs = [py ''flask>=2.3.0'', py ''sqlalchemy>=2.0.0'', py ''marshmallow>=3.20.0'',
         py ''celery>=5.3.0'', py ''pyjwt>=2.8.0'', py ''pymongo>=6.0.0'',
         py ''redis>=7.0.0'', py ''boto3>=1.28.0'', py ''requests>=2.31.0'',
         py ''python-dotenv>=1.0.0'', py ''gunicorn>=21.2.0'', py ''pydantic>=2.4.0'',
         py ''cryptography>=41.0.0'', py ''jinja2>=3.1.0''] \<and>
   length rs = 14 \<and> distinct rs"
proof -
  assume a: "try_requirements e = Inl x" and b: "get_requirements e = Inr rs"
  then have "rs = fallback_requirements"
    by (simp add: get_requirements_def split: if_splits)
  then show ?thesis
    using fallback_literal length_fallback distinct_fallback by simp
qed

theorem fallback_floors_witness:
  "try_requirements (run_in ''/proj'' []) = Inl FileNotFoundError \<and>
   get_requirements (run_in ''/proj'' []) =
     Inr [py ''flask>=2.3.0'', py ''sqlalchemy>=2.0.0'', py ''marshmallow>=3.20.0'',
          py ''celery>=5.3.0'', py ''pyjwt>=2.8.0'', py ''pymongo>=6.0.0'',
          py ''redis>=7.0.0'', py ''boto3>=1.28.0'', py ''requests>=2.31.0'',
          py ''python-dotenv>=1.0.0'', py ''gunicorn>=21.2.0'', py ''pydantic>=2.4.0'',
          py ''cryptography>=41.0.0'', py ''jinja2>=3.1.0'']"
proof -
  let ?E = "run_in ''/proj'' []"
  have a: "try_requirements ?E = Inl FileNotFoundError"
    by (simp add: try_requirements_def io_open_def run_in_def)
  then have b: "get_requirements ?E = Inr fallback_requirements"
    by (simp add: get_requirements_def)
  from fallback_floors [OF a b] a b show ?thesis by simp
qed

text \<open>
  C6. Whenever the script reaches the call of \<open>setup\<close>, \<open>python_requires\<close> is the string
  \<open>'>=3.11'\<close>.
\<close>

theorem setup_python_requires:
  "setup_script e = Inr kw \<Longrightarrow> python_requires kw = py ''>=3.11''"
  by (auto simp: setup_script_def split: sum.splits)

theorem setup_python_requires_witness:
  "\<exists>kw. setup_script (run_in ''/srv'' [(''/proj/README.md'', plain ''Refunds'')]) = Inr kw \<and>
     python_requires kw = py ''>=3.11''"
proof -
  let ?E = "run_in ''/srv'' [(''/proj/README.md'', plain ''Refunds'')]"
  have "README ?E = Inr (py '''')"
    by (simp add: README_def path_exists_def run_simps)
  moreover have "REQUIREMENTS ?E = Inr fallback_requirements"
    by (simp add: REQUIREMENTS_def get_requirements_def try_requirements_def run_simps)
  ultimately obtain kw where h: "setup_script ?E = Inr kw"
    by (simp add: setup_script_def)
  from setup_python_requires [OF h] h show ?thesis by blast
qed

text \<open>
  C7. Whatever \<open>requirements.txt\<close> is, every string of a list returned by
  \<open>get_requirements\<close>, parsed or predefined, is not empty, has no whitespace at either
  end (so stripping leaves it as it is) and does not begin with \<open>'#'\<close>.
\<close>

theorem get_requirements_entries_tidy:
  "get_requirements e = Inr rs \<Longrightarrow> r \<in> set rs \<Longrightarrow>
   r \<noteq> [] \<and> \<not> isspace (hd r) \<and> \<not> isspace (last r) \<and> strip r = r \<and>
   \<not> startswith r (py ''#'')"
proof -
  assume a: "get_requirements e = Inr rs" and m: "r \<in> set rs"
  have "tidy r"
    using get_requirements_Inr [OF a]
  proof
    assume "rs = fallback_requirements"
    with m tidy_fallback show ?thesis by (simp add: list_all_iff)
  next
    assume "\<exists>ls. rs = filter (\<lambda>s. s \<noteq> [] \<and> \<not> startswith s (py ''#'')) (map strip ls)"
    with m obtain l where "r = strip l" "strip l \<noteq> []" "\<not> startswith (strip l) (py ''#'')"
      by auto
    then show ?thesis by (simp add: tidy_strip)
  qed
  then show ?thesis using tidy_props [of r] by simp
qed

theorem get_requirements_entries_tidy_witness:
  "get_requirements (run_in ''/proj'' [(''/proj/requirements.txt'', plain ''  celery>=5.3.0 \<newline>#x'')]) =
     Inr [py ''celery>=5.3.0''] \<and>
   py ''celery>=5.3.0'' \<in> set [py ''celery>=5.3.0''] \<and>
   py ''celery>=5.3.0'' \<noteq> [] \<and>
   \<not> isspace (hd (py ''celery>=5.3.0'')) \<and>
   \<not> isspace (last (py ''celery>=5.3.0'')) \<and>
   strip (py ''celery>=5.3.0'') = py ''celery>=5.3.0'' \<and>
   \<not> startswith (py ''celery>=5.3.0'') (py ''#'')"
proof -
  let ?E = "run_in ''/proj'' [(''/proj/requirements.txt'', plain ''  celery>=5.3.0 \<newline>#x'')]"
  have a: "get_requirements ?E = Inr [py ''celery>=5.3.0'']"
    by (simp add: get_requirements_def try_requirements_def run_simps file_lines_def
        strip_def lstrip_def rstrip_def isspace_def Let_def)
  have m: "py ''celery>=5.3.0'' \<in> set [py ''celery>=5.3.0'']" by simp
  from get_requirements_entries_tidy [OF a m] a m show ?thesis by simp
qed



text \<open>
  C9. The guard looks for \<open>README.md\<close> in the current working directory and \<open>read\<close>
  opens it in the directory of the script. When \<open>README.md\<close> exists in the first and not
  in the second, the two directories differ, the assignment of \<open>README\<close> raises
  \<open>FileNotFoundError\<close>, and nothing handles it: the script ends with that exception.
\<close>

theorem README_guard_mismatch:
  "files e (path_join (cwd e) (py ''README.md'')) = Some n \<Longrightarrow>
   files e (path_join (here e) (py ''README.md'')) = None \<Longrightarrow>
   path_exists e (py ''README.md'') \<and> cwd e \<noteq> here e \<and>
   README e = Inl FileNotFoundError \<and> setup_script e = Inl FileNotFoundError"
proof -
  assume a: "files e (path_join (cwd e) (py ''README.md'')) = Some n"
    and b: "files e (path_join (here e) (py ''README.md'')) = None"
  have x: "path_exists e (py ''README.md'')" using a by (simp add: path_exists_def)
  have d: "cwd e \<noteq> here e" using a b by auto
  have r: "README e = Inl FileNotFoundError"
    using x b by (simp add: README_def read_def io_open_def)
  then have "setup_script e = Inl FileNotFoundError" by (simp add: setup_script_def)
  with x d r show ?thesis by simp
qed

theorem README_guard_mismatch_witness:
  "files (run_in ''/home/ci'' [(''/home/ci/README.md'', plain ''Refunds'')])
     (path_join (cwd (run_in ''/home/ci'' [(''/home/ci/README.md'', plain ''Refunds'')])) (py ''README.md'')) =
     Some (plain ''Refunds'') \<and>
   files (run_in ''/home/ci'' [(''/home/ci/README.md'', plain ''Refunds'')])
     (path_join (here (run_in ''/home/ci'' [(''/home/ci/README.md'', plain ''Refunds'')])) (py ''README.md'')) =
     None \<and>
   README (run_in ''/home/ci'' [(''/home/ci/README.md'', plain ''Refunds'')]) = Inl FileNotFoundError \<and>
   setup_script (run_in ''/home/ci'' [(''/home/ci/README.md'', plain ''Refunds'')]) = Inl FileNotFoundError"
proof -
  let ?E = "run_in ''/home/ci'' [(''/home/ci/README.md'', plain ''Refunds'')]"
  have a: "files ?E (path_join (cwd ?E) (py ''README.md'')) = Some (plain ''Refunds'')"
    by (simp add: run_in_def py_def path_join_def startswith_def endswith_def)
  have b: "files ?E (path_join (here ?E) (py ''README.md'')) = None"
    by (simp add: run_in_def py_def path_join_def startswith_def endswith_def)
  from README_guard_mismatch [OF a b] a b show ?thesis by simp
qed

text \<open>
  C3 on two runs of the script in \<open>/proj\<close> from the working directory \<open>/tmp\<close>. With
  \<open>README.md\<close> in \<open>/tmp\<close> only, the assignment of \<open>README\<close> raises: the long description
  is neither the text of the file nor the empty string. With \<open>README.md\<close> beside the
  script only, the long description is the empty string and not the text of the file.
\<close>

theorem README_outside_script_directory:
  "README (run_in ''/tmp'' [(''/tmp/README.md'', plain ''Brik refunds'')]) =
     Inl FileNotFoundError \<and>
   setup_script (run_in ''/tmp'' [(''/tmp/README.md'', plain ''Brik refunds'')]) =
     Inl FileNotFoundError \<and>
   README (run_in ''/tmp'' [(''/proj/README.md'', plain ''Brik refunds'')]) = Inr (py '''') \<and>
   read (run_in ''/tmp'' [(''/proj/README.md'', plain ''Brik refunds'')]) (py ''README.md'') =
     Inr (py ''Brik refunds'')"
  by (simp add: README_def path_exists_def read_def setup_script_def run_simps)

end
